theory Spec2Isabelle
  imports Main "HOL-Library.Word"
begin

unbundle bit_operations_syntax

section \<open>Data model (js.h and the kernel's joystick interface)\<close>

text \<open>
  The result code shared by every fallible operation of the library
  (\<^verbatim>\<open>typedef enum { ... } JsResult\<close> in js.h).
\<close>

datatype JsResult = JsResult_success | JsResult_nothing | JsResult_stop | JsResult_failure

text \<open>
  \<^verbatim>\<open>typedef struct js_event JsEvent\<close>: the event record of the kernel header
  \<^verbatim>\<open>linux/joystick.h\<close>, which the library includes and does not redefine:
  \<^verbatim>\<open>struct js_event { __u32 time; __s16 value; __u8 type; __u8 number; }\<close>.
  The signed 16-bit value is kept as a 16-bit word; the code only tests it against zero
  and copies it. The fields carry the prefix \<open>ev_\<close>.
\<close>

record JsEvent =
  ev_time :: "32 word"
  ev_value :: "16 word"
  ev_type :: "8 word"
  ev_number :: "8 word"

text \<open>The event type bits of the same kernel header (0x01, 0x02 and 0x80).\<close>

definition JS_EVENT_BUTTON :: "8 word" where
  "JS_EVENT_BUTTON = 0x01"

definition JS_EVENT_AXIS :: "8 word" where
  "JS_EVENT_AXIS = 0x02"

definition JS_EVENT_INIT :: "8 word" where
  "JS_EVENT_INIT = 0x80"

text \<open>The two capacities of js.h.\<close>

definition js_max_number_of_buttons :: nat where
  "js_max_number_of_buttons = 32"

definition js_max_number_of_axes :: nat where
  "js_max_number_of_axes = 8"

text \<open>
  \<^verbatim>\<open>struct JsState { uint32_t time; uint32_t buttons; int16_t axes[js_max_number_of_axes]; }\<close>.
  The array is a list; a state of the C type has exactly \<open>js_max_number_of_axes\<close> slots,
  which \<open>JsState_wf\<close> records. The fields carry the prefix \<open>st_\<close>.
\<close>

record JsState =
  st_time :: "32 word"
  st_buttons :: "32 word"
  st_axes :: "16 word list"

definition JsState_wf :: "JsState \<Rightarrow> bool" where
  "JsState_wf state \<longleftrightarrow> length (st_axes state) = js_max_number_of_axes"

text \<open>The value of the compound literal \<^verbatim>\<open>(JsState){}\<close>: every member zero.\<close>

definition JsState_zero :: JsState where
  "JsState_zero = \<lparr>st_time = 0, st_buttons = 0, st_axes = replicate js_max_number_of_axes 0\<rparr>"

section \<open>The state folder\<close>

text \<open>
  \<^verbatim>\<open>js_update_state(JsState * state, const JsEvent * event)\<close>. The state is passed in
  and returned next to the result code, on every path, since the C function writes
  through the pointer before it decides whether to fail.

  \<^verbatim>\<open>1 << event->number\<close> is a shift of the \<open>int\<close> constant 1, stored into the unsigned
  32-bit member; it is modelled on 32-bit words (for \<open>number = 31\<close> this is the two's
  complement result that gcc and clang produce). The guards compare the index, promoted
  to \<open>int\<close>, with the capacity; here it is read with \<open>unat\<close>.
\<close>

definition js_update_state :: "JsState \<Rightarrow> JsEvent \<Rightarrow> JsResult \<times> JsState" where
  "js_update_state state event =
    (let state = state\<lparr>st_time := ev_time event\<rparr> in
     if ev_type event AND JS_EVENT_BUTTON \<noteq> 0 then
       if unat (ev_number event) \<ge> js_max_number_of_buttons then
         (JsResult_failure, state)
       else if ev_value event \<noteq> 0 then
         (JsResult_success,
          state\<lparr>st_buttons := st_buttons state OR push_bit (unat (ev_number event)) 1\<rparr>)
       else
         (JsResult_success,
          state\<lparr>st_buttons := st_buttons state AND NOT (push_bit (unat (ev_number event)) 1)\<rparr>)
     else if ev_type event AND JS_EVENT_AXIS \<noteq> 0 then
       if unat (ev_number event) \<ge> js_max_number_of_axes then
         (JsResult_failure, state)
       else
         (JsResult_success,
          state\<lparr>st_axes := (st_axes state)[unat (ev_number event) := ev_value event]\<rparr>)
     else
       (JsResult_failure, state))"

section \<open>Reading one event (\<^verbatim>\<open>js_get_event\<close>)\<close>

text \<open>
  The descriptor is opened with \<^verbatim>\<open>O_NONBLOCK\<close>; what the library sees of it is the
  outcome of each \<^verbatim>\<open>read(js, event, sizeof(*event))\<close>: a complete event record
  (\<open>s = sizeof(*event)\<close>), a short read (\<open>0 < s < sizeof(*event)\<close>), zero bytes
  (\<open>s = 0\<close>), or \<open>s = -1\<close> with an \<open>errno\<close>.
\<close>

datatype read_ret = Read JsEvent | Read_short | Read_zero | Read_error int

text \<open>The two \<open>errno\<close> values the code tests (Linux gives both the number 11).\<close>

definition EAGAIN :: int where
  "EAGAIN = 11"

definition EWOULDBLOCK :: int where
  "EWOULDBLOCK = 11"

text \<open>
  A descriptor is represented by the outcomes its coming reads will have, in order. Once
  they are used up nothing is queued, and a non-blocking read reports \<open>EAGAIN\<close>.
\<close>

type_synonym js_fd = "read_ret list"

definition read_fd :: "js_fd \<Rightarrow> read_ret \<times> js_fd" where
  "read_fd js = (case js of [] \<Rightarrow> (Read_error EAGAIN, []) | ret # js' \<Rightarrow> (ret, js'))"

text \<open>
  \<^verbatim>\<open>js_get_event(int js, JsEvent * event)\<close>, with the source's order of tests. The
  second component is what the call stored in \<open>*event\<close>: an event after a complete
  read, nothing usable otherwise. The third is the descriptor after the read.
\<close>

definition js_get_event :: "js_fd \<Rightarrow> JsResult \<times> JsEvent option \<times> js_fd" where
  "js_get_event js =
    (case read_fd js of (ret, js') \<Rightarrow>
      (case ret of
         Read event \<Rightarrow> (JsResult_success, Some event, js')
       | Read_short \<Rightarrow> (JsResult_failure, None, js')
       | Read_zero \<Rightarrow> (JsResult_nothing, None, js')
       | Read_error errno \<Rightarrow>
           if errno = EAGAIN \<or> errno = EWOULDBLOCK then (JsResult_nothing, None, js')
           else (JsResult_failure, None, js')))"

section \<open>The C11 thread primitives the library calls\<close>

text \<open>
  The result codes of \<^verbatim>\<open>threads.h\<close>, the exit codes of \<^verbatim>\<open>stdlib.h\<close>, and a thread
  handle together with the status of the thread it names: no thread was started, the
  thread is executing \<^verbatim>\<open>js_event_handler_main\<close>, or it has returned an exit code.
\<close>

datatype thrd_code = thrd_success | thrd_busy | thrd_error | thrd_nomem | thrd_timedout

datatype thrd_t = Thrd_none | Thrd_running | Thrd_exited int

definition EXIT_SUCCESS :: int where
  "EXIT_SUCCESS = 0"

definition EXIT_FAILURE :: int where
  "EXIT_FAILURE = 1"

text \<open>
  Whether a primitive succeeds is decided by the platform, not by the library, so the
  primitives are a parameter of every function that calls them: the four mutex
  operations act on a mutex of some type \<open>'m\<close> and return their result code, and
  \<open>thrd_create\<close> and \<open>thrd_join\<close> give the result code of the one call the function
  makes.
\<close>

record 'm threads_h =
  mtx_init :: "'m \<Rightarrow> thrd_code \<times> 'm"
  mtx_lock :: "'m \<Rightarrow> thrd_code \<times> 'm"
  mtx_unlock :: "'m \<Rightarrow> thrd_code \<times> 'm"
  mtx_destroy :: "'m \<Rightarrow> 'm"
  thrd_create :: thrd_code
  thrd_join :: thrd_code

text \<open>
  Two platforms for concrete runs. The mutex is a flag that is set while it is held; on
  \<open>threads_ok\<close> every primitive succeeds, on \<open>threads_nomem\<close> no thread can be started.
\<close>

definition threads_ok :: "bool threads_h" where
  "threads_ok = \<lparr>mtx_init = (\<lambda>m. (thrd_success, False)),
                 mtx_lock = (\<lambda>m. (thrd_success, True)),
                 mtx_unlock = (\<lambda>m. (thrd_success, False)),
                 mtx_destroy = (\<lambda>m. False),
                 thrd_create = thrd_success,
                 thrd_join = thrd_success\<rparr>"

definition threads_nomem :: "bool threads_h" where
  "threads_nomem = threads_ok\<lparr>thrd_create := thrd_nomem\<rparr>"

section \<open>The asynchronous event handler\<close>

text \<open>
  \<^verbatim>\<open>struct JsEventHandler\<close>, fields prefixed \<open>eh_\<close>. The callback receives the event and
  the argument pointer and may write to whatever the pointer reaches; that memory is the
  extra argument and result of type \<open>'w\<close>.
\<close>

record ('a, 'w) JsEventHandler =
  eh_js :: js_fd
  eh_event_action_arg :: 'a
  eh_event_action :: "JsEvent \<Rightarrow> 'a \<Rightarrow> 'w \<Rightarrow> JsResult \<times> 'w"
  eh_thread_id :: thrd_t
  eh_is_running :: bool

text \<open>
  How a piece of code is left: control goes on to what follows it (\<open>Next\<close>), or the
  enclosing function returns a value (\<open>Return\<close>). Both carry the memory as it then is.
\<close>

datatype ('r, 's) flow = Next 's | Return 'r 's

text \<open>
  One pass through the body of the \<^verbatim>\<open>while\<close> loop of \<^verbatim>\<open>js_event_handler_main\<close>:
  \<open>Next\<close> goes back to the loop test (after \<^verbatim>\<open>thrd_sleep\<close> when no event was
  available), \<open>Return\<close> is one of the two exits \<^verbatim>\<open>exit_success\<close> and \<^verbatim>\<open>exit_failure\<close>,
  of which the latter clears the running flag.
\<close>

definition js_event_handler_body ::
  "('a, 'w) JsEventHandler \<times> 'w \<Rightarrow> (int, ('a, 'w) JsEventHandler \<times> 'w) flow" where
  "js_event_handler_body s =
    (case s of (event_handler, w) \<Rightarrow>
      (case js_get_event (eh_js event_handler) of
         (JsResult_success, Some event, js') \<Rightarrow>
           (case eh_event_action event_handler event (eh_event_action_arg event_handler) w of
              (JsResult_stop, w') \<Rightarrow>
                Return EXIT_SUCCESS (event_handler\<lparr>eh_js := js'\<rparr>, w')
            | (JsResult_failure, w') \<Rightarrow>
                Return EXIT_FAILURE (event_handler\<lparr>eh_js := js', eh_is_running := False\<rparr>, w')
            | (_, w') \<Rightarrow>
                Next (event_handler\<lparr>eh_js := js'\<rparr>, w'))
       | (JsResult_nothing, _, js') \<Rightarrow>
           Next (event_handler\<lparr>eh_js := js'\<rparr>, w)
       | (_, _, js') \<Rightarrow>
           Return EXIT_FAILURE (event_handler\<lparr>eh_js := js', eh_is_running := False\<rparr>, w)))"

text \<open>
  \<^verbatim>\<open>js_event_handler_main\<close>: the loop may poll for ever, so the function is partial and
  \<open>None\<close> stands for a thread that never returns.
\<close>

partial_function (option) js_event_handler_main ::
  "('a, 'w) JsEventHandler \<times> 'w \<Rightarrow> (int \<times> ('a, 'w) JsEventHandler \<times> 'w) option" where
  "js_event_handler_main s =
    (if eh_is_running (fst s) then
       (case js_event_handler_body s of
          Next s' \<Rightarrow> js_event_handler_main s'
        | Return return_val s' \<Rightarrow> Some (return_val, s'))
     else Some (EXIT_SUCCESS, s))"

text \<open>
  The memory at the loop test after \<open>n\<close> passes through the body none of which left the
  loop, if the loop gets that far.
\<close>

fun js_event_handler_passes ::
  "nat \<Rightarrow> ('a, 'w) JsEventHandler \<times> 'w \<Rightarrow> (('a, 'w) JsEventHandler \<times> 'w) option" where
  "js_event_handler_passes 0 s = Some s"
| "js_event_handler_passes (Suc n) s =
    (if eh_is_running (fst s) then
       (case js_event_handler_body s of
          Next s' \<Rightarrow> js_event_handler_passes n s'
        | Return return_val s' \<Rightarrow> None)
     else None)"

text \<open>
  \<^verbatim>\<open>js_create_event_handler\<close>: the flag is initialised to true, then the thread is
  created; the handle names a running thread only if \<^verbatim>\<open>thrd_create\<close> succeeded.
\<close>

definition js_create_event_handler ::
  "'m threads_h \<Rightarrow> ('a, 'w) JsEventHandler \<Rightarrow> JsResult \<times> ('a, 'w) JsEventHandler" where
  "js_create_event_handler sys event_handler =
    (let event_handler = event_handler\<lparr>eh_is_running := True\<rparr> in
     if thrd_create sys = thrd_success then
       (JsResult_success, event_handler\<lparr>eh_thread_id := Thrd_running\<rparr>)
     else (JsResult_failure, event_handler))"

text \<open>
  The thread started by \<^verbatim>\<open>thrd_create\<close> executes \<^verbatim>\<open>js_event_handler_main\<close> on the
  handler; when that returns, the handle records the exit code. The embedding is
  sequential: the run of the thread is taken as a whole, from the loop test it stands at,
  and the other functions act before or after it.
\<close>

definition js_event_handler_thread ::
  "('a, 'w) JsEventHandler \<times> 'w \<Rightarrow> (('a, 'w) JsEventHandler \<times> 'w) option" where
  "js_event_handler_thread s =
    (case eh_thread_id (fst s) of
       Thrd_running \<Rightarrow>
         (case js_event_handler_main s of
            None \<Rightarrow> None
          | Some (return_val, event_handler, w) \<Rightarrow>
              Some (event_handler\<lparr>eh_thread_id := Thrd_exited return_val\<rparr>, w))
     | _ \<Rightarrow> Some s)"

text \<open>
  \<^verbatim>\<open>js_destroy_event_handler\<close>: clears the flag and joins the thread. \<^verbatim>\<open>thrd_join\<close>
  waits until the thread has returned and then delivers its exit code; a handle that names
  no thread cannot be joined.
\<close>

definition js_destroy_event_handler ::
  "'m threads_h \<Rightarrow> ('a, 'w) JsEventHandler \<times> 'w
    \<Rightarrow> (JsResult \<times> ('a, 'w) JsEventHandler \<times> 'w) option" where
  "js_destroy_event_handler sys s =
    (case js_event_handler_thread ((fst s)\<lparr>eh_is_running := False\<rparr>, snd s) of
       None \<Rightarrow> None
     | Some s' \<Rightarrow>
         (case eh_thread_id (fst s') of
            Thrd_exited return_val \<Rightarrow>
              Some (if thrd_join sys = thrd_success \<and> return_val = EXIT_SUCCESS
                    then JsResult_success else JsResult_failure, s')
          | _ \<Rightarrow> Some (JsResult_failure, s')))"

definition js_event_handler_is_running :: "('a, 'w) JsEventHandler \<Rightarrow> bool" where
  "js_event_handler_is_running event_handler = eh_is_running event_handler"

section \<open>The asynchronously updated state\<close>

text \<open>
  \<^verbatim>\<open>struct JsAsyncState\<close>, fields prefixed \<open>as_\<close>. The handler's argument pointer is
  the address of the enclosing object itself, so it carries no data of its own (\<open>unit\<close>);
  what the callback reaches through it are the members \<open>lock\<close> and \<open>state\<close>.
\<close>

record 'm JsAsyncState =
  as_lock :: 'm
  as_event_handler :: "(unit, 'm \<times> JsState) JsEventHandler"
  as_state :: JsState

text \<open>\<^verbatim>\<open>js_async_state_event_action\<close>: the fold under the lock.\<close>

definition js_async_state_event_action ::
  "'m threads_h \<Rightarrow> JsEvent \<Rightarrow> unit \<Rightarrow> 'm \<times> JsState \<Rightarrow> JsResult \<times> ('m \<times> JsState)" where
  "js_async_state_event_action sys event arg async_state =
    (case async_state of (lock, state) \<Rightarrow>
      (case mtx_lock sys lock of (lock_result, lock) \<Rightarrow>
        if lock_result \<noteq> thrd_success then (JsResult_failure, (lock, state))
        else
          (case js_update_state state event of (r, state) \<Rightarrow>
            (case mtx_unlock sys lock of (unlock_result, lock) \<Rightarrow>
              if unlock_result \<noteq> thrd_success then (JsResult_failure, (lock, state))
              else (r, (lock, state))))))"

text \<open>
  The \<^verbatim>\<open>do ... while (event.type & JS_EVENT_INIT)\<close> loop of \<^verbatim>\<open>js_create_async_state\<close>
  on the state member and the descriptor: \<open>Next\<close> when the loop is left by \<^verbatim>\<open>break\<close> or
  by its condition, \<open>Return\<close> for the two \<^verbatim>\<open>return JsResult_failure\<close> inside it. The
  condition is tested after the body, on the event the body has just folded. Every pass
  that repeats the loop has consumed one read outcome, which is the termination argument.
\<close>

function js_create_async_state_loop ::
  "JsState \<times> js_fd \<Rightarrow> (JsResult, JsState \<times> js_fd) flow" where
  "js_create_async_state_loop s =
    (case s of (state, js) \<Rightarrow>
      (case js_get_event js of
         (JsResult_success, Some event, js') \<Rightarrow>
           (case js_update_state state event of (r, state') \<Rightarrow>
             if r \<noteq> JsResult_success then Return JsResult_failure (state', js')
             else if ev_type event AND JS_EVENT_INIT \<noteq> 0 then
               js_create_async_state_loop (state', js')
             else Next (state', js'))
       | (JsResult_nothing, _, js') \<Rightarrow> Next (state, js')
       | (_, _, js') \<Rightarrow> Return JsResult_failure (state, js')))"
  by pat_completeness auto
termination
  by (relation "measure (\<lambda>s. length (snd s))")
    (auto simp add: js_get_event_def read_fd_def split: list.splits read_ret.splits if_splits)

declare js_create_async_state_loop.simps [simp del]

text \<open>
  \<^verbatim>\<open>js_create_async_state(int js, JsAsyncState * async_state)\<close>. The result holds the
  object as the call leaves it and the descriptor after the reads of the loop; on success
  the descriptor is the one the handler's thread will read from.
\<close>

definition js_create_async_state ::
  "'m threads_h \<Rightarrow> js_fd \<Rightarrow> 'm JsAsyncState \<Rightarrow> JsResult \<times> 'm JsAsyncState \<times> js_fd" where
  "js_create_async_state sys js async_state =
    (let async_state = async_state\<lparr>as_state := JsState_zero\<rparr> in
     case js_create_async_state_loop (as_state async_state, js) of
       Return r (state, js') \<Rightarrow> (r, async_state\<lparr>as_state := state\<rparr>, js')
     | Next (state, js') \<Rightarrow>
         (let async_state = async_state\<lparr>as_state := state\<rparr> in
          case mtx_init sys (as_lock async_state) of (init_result, lock) \<Rightarrow>
            let async_state = async_state\<lparr>as_lock := lock\<rparr> in
            if init_result \<noteq> thrd_success then (JsResult_failure, async_state, js')
            else
              (let async_state = async_state\<lparr>as_event_handler :=
                     \<lparr>eh_js = js',
                      eh_event_action_arg = (),
                      eh_event_action = js_async_state_event_action sys,
                      eh_thread_id = Thrd_none,
                      eh_is_running = False\<rparr>\<rparr> in
               case js_create_event_handler sys (as_event_handler async_state) of
                 (r, event_handler) \<Rightarrow>
                   let async_state = async_state\<lparr>as_event_handler := event_handler\<rparr> in
                   if r \<noteq> JsResult_success then
                     (JsResult_failure,
                      async_state\<lparr>as_lock := mtx_destroy sys (as_lock async_state)\<rparr>, js')
                   else (JsResult_success, async_state, js'))))"

text \<open>
  \<^verbatim>\<open>js_query_async_state(JsAsyncState * async_state, JsState * state)\<close>: the third
  component of the result is \<open>*state\<close> after the call, which is the caller's old value
  when the lock could not be taken.
\<close>

definition js_query_async_state ::
  "'m threads_h \<Rightarrow> 'm JsAsyncState \<Rightarrow> JsState \<Rightarrow> JsResult \<times> 'm JsAsyncState \<times> JsState" where
  "js_query_async_state sys async_state state =
    (case mtx_lock sys (as_lock async_state) of (lock_result, lock) \<Rightarrow>
      let async_state = async_state\<lparr>as_lock := lock\<rparr> in
      if lock_result \<noteq> thrd_success then (JsResult_failure, async_state, state)
      else
        (let state = as_state async_state in
         case mtx_unlock sys (as_lock async_state) of (unlock_result, lock) \<Rightarrow>
           let async_state = async_state\<lparr>as_lock := lock\<rparr> in
           if unlock_result \<noteq> thrd_success then (JsResult_failure, async_state, state)
           else (JsResult_success, async_state, state)))"

section \<open>Notions used to state the properties\<close>

text \<open>
  Folding a list of events in order with \<open>js_update_state\<close>, stopping at the first fold
  that does not succeed.
\<close>

fun js_update_states :: "JsState \<Rightarrow> JsEvent list \<Rightarrow> JsResult \<times> JsState" where
  "js_update_states state [] = (JsResult_success, state)"
| "js_update_states state (event # events) =
    (case js_update_state state event of (r, state') \<Rightarrow>
      if r \<noteq> JsResult_success then (r, state') else js_update_states state' events)"

text \<open>
  The draining step as the specification words it: only the leading events that carry the
  initialization flag are folded, and the first event without the flag is left out.
\<close>

definition js_drain_spec :: "JsState \<Rightarrow> JsEvent list \<Rightarrow> JsResult \<times> JsState" where
  "js_drain_spec state events =
    js_update_states state (takeWhile (\<lambda>event. ev_type event AND JS_EVENT_INIT \<noteq> 0) events)"

text \<open>
  A callback for concrete runs: its memory counts the invocations, and it reports failure
  on the \<open>k\<close>-th one.
\<close>

definition failing_on :: "nat \<Rightarrow> JsEvent \<Rightarrow> unit \<Rightarrow> nat \<Rightarrow> JsResult \<times> nat" where
  "failing_on k event arg count =
    (if Suc count = k then (JsResult_failure, Suc count) else (JsResult_success, Suc count))"

section \<open>Concrete runs\<close>

text \<open>
  An object as the caller hands it to \<^verbatim>\<open>js_create_async_state\<close>, with left-over
  contents in the state member.
\<close>

definition JsAsyncState_blank :: "bool JsAsyncState" where
  "JsAsyncState_blank =
    \<lparr>as_lock = False,
     as_event_handler =
       \<lparr>eh_js = [], eh_event_action_arg = (),
        eh_event_action = (\<lambda>event arg w. (JsResult_success, w)),
        eh_thread_id = Thrd_none, eh_is_running = False\<rparr>,
     as_state = \<lparr>st_time = 77, st_buttons = 5, st_axes = [1, 1, 1, 1, 1, 1, 1, 1]\<rparr>\<rparr>"

text \<open>
  The backlog of the specification's drain scenario (button 2 set, axis 0 at 500,
  button 2 cleared, all three flagged as initialization events), a physical press of
  button 3, and a button event whose index is beyond the capacity.
\<close>

definition backlog :: "JsEvent list" where
  "backlog =
    [\<lparr>ev_time = 1, ev_value = 1, ev_type = 0x81, ev_number = 2\<rparr>,
     \<lparr>ev_time = 2, ev_value = 500, ev_type = 0x82, ev_number = 0\<rparr>,
     \<lparr>ev_time = 3, ev_value = 0, ev_type = 0x81, ev_number = 2\<rparr>]"

definition press3 :: JsEvent where
  "press3 = \<lparr>ev_time = 4, ev_value = 1, ev_type = 0x01, ev_number = 3\<rparr>"

definition button40 :: JsEvent where
  "button40 = \<lparr>ev_time = 5, ev_value = 1, ev_type = 0x01, ev_number = 40\<rparr>"

text \<open>
  A handler whose thread is running, with six presses queued on its descriptor and the
  callback that fails on its fifth invocation.
\<close>

definition press_at :: "32 word \<Rightarrow> read_ret" where
  "press_at t = Read \<lparr>ev_time = t, ev_value = 1, ev_type = 0x01, ev_number = 0\<rparr>"

definition failing_handler :: "(unit, nat) JsEventHandler" where
  "failing_handler =
    \<lparr>eh_js = [press_at 1, press_at 2, press_at 3, press_at 4, press_at 5, press_at 6],
     eh_event_action_arg = (),
     eh_event_action = failing_on 5,
     eh_thread_id = Thrd_running,
     eh_is_running = True\<rparr>"

section \<open>Auxiliary facts\<close>

lemma bit_shift_one: "bit (push_bit n (1 :: 32 word)) m \<longleftrightarrow> m = n \<and> n < 32"
  by (auto simp add: bit_push_bit_iff bit_1_iff simp del: push_bit_of_1)

lemmas js_update_state_unfold =
  js_update_state_def js_max_number_of_buttons_def js_max_number_of_axes_def Let_def

lemma JsState_zero_eq:
  "JsState_zero = \<lparr>st_time = 0, st_buttons = 0, st_axes = [0, 0, 0, 0, 0, 0, 0, 0]\<rparr>"
  by (simp add: JsState_zero_def js_max_number_of_axes_def eval_nat_numeral)

lemma type_or_init:
  "(t OR JS_EVENT_INIT) AND JS_EVENT_BUTTON = t AND JS_EVENT_BUTTON"
  "(t OR JS_EVENT_INIT) AND JS_EVENT_AXIS = t AND JS_EVENT_AXIS"
  by (simp_all add: JS_EVENT_INIT_def JS_EVENT_BUTTON_def JS_EVENT_AXIS_def
      bit.conj_disj_distrib2)

lemma js_update_states_snoc:
  "fst (js_update_states state events) = JsResult_success \<Longrightarrow>
   js_update_states state (events @ [event])
     = js_update_state (snd (js_update_states state events)) event"
  by (induction events arbitrary: state) (auto split: prod.splits if_splits)

subsection \<open>The handler loop\<close>

text \<open>Passes that go back to the loop test do not change what the loop returns.\<close>

lemma js_event_handler_main_passes:
  "js_event_handler_passes n s = Some s' \<Longrightarrow> js_event_handler_main s = js_event_handler_main s'"
proof (induction n arbitrary: s)
  case 0
  then show ?case by simp
next
  case (Suc n)
  from Suc.prems obtain s1 where run: "eh_is_running (fst s)"
    and body: "js_event_handler_body s = Next s1"
    and rest: "js_event_handler_passes n s1 = Some s'"
    by (auto split: if_splits flow.splits)
  have "js_event_handler_main s = js_event_handler_main s1"
    using run body by (subst js_event_handler_main.simps) simp
  with Suc.IH [OF rest] show ?case by simp
qed

lemma js_event_handler_main_callback_failure:
  assumes "eh_is_running event_handler"
    and "js_get_event (eh_js event_handler) = (JsResult_success, Some event, js')"
    and "eh_event_action event_handler event (eh_event_action_arg event_handler) w
          = (JsResult_failure, w')"
  shows "js_event_handler_main (event_handler, w)
    = Some (EXIT_FAILURE, event_handler\<lparr>eh_js := js', eh_is_running := False\<rparr>, w')"
  using assms
  by (subst js_event_handler_main.simps) (simp add: js_event_handler_body_def)

subsection \<open>The draining loop\<close>

text \<open>
  Events that carry the initialization flag and fold successfully are consumed one after
  the other, and the loop goes on with what follows them.
\<close>

lemma loop_init_events:
  assumes "\<forall>event \<in> set events. ev_type event AND JS_EVENT_INIT \<noteq> 0"
    and "fst (js_update_states state events) = JsResult_success"
  shows "js_create_async_state_loop (state, map Read events @ rest)
    = js_create_async_state_loop (snd (js_update_states state events), rest)"
  using assms
proof (induction events arbitrary: state)
  case Nil
  then show ?case by simp
next
  case (Cons event events)
  obtain r state' where upd: "js_update_state state event = (r, state')"
    by (cases "js_update_state state event")
  with Cons.prems(2) have r: "r = JsResult_success"
    by (auto split: if_splits)
  have step: "js_create_async_state_loop (state, map Read (event # events) @ rest)
      = js_create_async_state_loop (state', map Read events @ rest)"
    using Cons.prems(1) upd r
    by (subst js_create_async_state_loop.simps) (simp add: js_get_event_def read_fd_def)
  have "fst (js_update_states state' events) = JsResult_success"
    using Cons.prems(2) upd r by simp
  with Cons.IH [of state'] Cons.prems(1)
  have "js_create_async_state_loop (state', map Read events @ rest)
      = js_create_async_state_loop (snd (js_update_states state' events), rest)"
    by simp
  with step upd r show ?case by simp
qed

lemma loop_last_event:
  assumes "ev_type event AND JS_EVENT_INIT = 0"
    and "fst (js_update_state state event) = JsResult_success"
  shows "js_create_async_state_loop (state, Read event # rest)
    = Next (snd (js_update_state state event), rest)"
  using assms
  by (subst js_create_async_state_loop.simps)
    (auto simp add: js_get_event_def read_fd_def split: prod.splits)

lemma loop_bad_event:
  assumes "fst (js_update_state state event) \<noteq> JsResult_success"
  shows "js_create_async_state_loop (state, Read event # rest)
    = Return JsResult_failure (snd (js_update_state state event), rest)"
  using assms
  by (subst js_create_async_state_loop.simps)
    (auto simp add: js_get_event_def read_fd_def split: prod.splits)

lemma loop_nothing:
  assumes "fst (js_get_event js) = JsResult_nothing"
  shows "js_create_async_state_loop (state, js) = Next (state, snd (snd (js_get_event js)))"
proof -
  obtain event js' where "js_get_event js = (JsResult_nothing, event, js')"
    using assms by (cases "js_get_event js") auto
  then show ?thesis
    by (subst js_create_async_state_loop.simps) simp
qed

lemma loop_read_failure:
  assumes "fst (js_get_event js) = JsResult_failure"
  shows "js_create_async_state_loop (state, js)
    = Return JsResult_failure (state, snd (snd (js_get_event js)))"
proof -
  obtain event js' where "js_get_event js = (JsResult_failure, event, js')"
    using assms by (cases "js_get_event js") auto
  then show ?thesis
    by (subst js_create_async_state_loop.simps) (simp split: option.splits)
qed

lemma create_after_loop:
  assumes "js_create_async_state_loop (JsState_zero, js) = Next (state, js')"
  shows "as_state (fst (snd (js_create_async_state sys js async_state))) = state
    \<and> snd (snd (js_create_async_state sys js async_state)) = js'"
  using assms
  by (simp add: js_create_async_state_def js_create_event_handler_def Let_def
      split: prod.splits)

lemma create_loop_return:
  assumes "js_create_async_state_loop (JsState_zero, js) = Return r (state, js')"
  shows "js_create_async_state sys js async_state = (r, async_state\<lparr>as_state := state\<rparr>, js')"
  using assms by (simp add: js_create_async_state_def Let_def)

lemma create_drains_to_physical_event:
  assumes "\<forall>event \<in> set events. ev_type event AND JS_EVENT_INIT \<noteq> 0"
    and "fst (js_update_states JsState_zero events) = JsResult_success"
    and "ev_type event AND JS_EVENT_INIT = 0"
    and "fst (js_update_state (snd (js_update_states JsState_zero events)) event)
          = JsResult_success"
  shows "as_state (fst (snd (js_create_async_state sys
            (map Read events @ Read event # rest) async_state)))
      = snd (js_update_states JsState_zero (events @ [event]))
    \<and> snd (snd (js_create_async_state sys
            (map Read events @ Read event # rest) async_state)) = rest"
proof -
  have "js_create_async_state_loop (JsState_zero, map Read events @ Read event # rest)
      = Next (snd (js_update_state (snd (js_update_states JsState_zero events)) event), rest)"
    using loop_init_events [OF assms(1,2)] loop_last_event [OF assms(3,4)] by simp
  from create_after_loop [OF this, of sys async_state] js_update_states_snoc [OF assms(2)]
  show ?thesis by simp
qed

lemma create_drains_to_nothing:
  assumes "\<forall>event \<in> set events. ev_type event AND JS_EVENT_INIT \<noteq> 0"
    and "fst (js_update_states JsState_zero events) = JsResult_success"
    and "fst (js_get_event idle) = JsResult_nothing"
  shows "as_state (fst (snd (js_create_async_state sys (map Read events @ idle) async_state)))
      = snd (js_update_states JsState_zero events)
    \<and> snd (snd (js_create_async_state sys (map Read events @ idle) async_state))
      = snd (snd (js_get_event idle))"
proof -
  have "js_create_async_state_loop (JsState_zero, map Read events @ idle)
      = Next (snd (js_update_states JsState_zero events), snd (snd (js_get_event idle)))"
    using loop_init_events [OF assms(1,2)] loop_nothing [OF assms(3)] by simp
  from create_after_loop [OF this, of sys async_state] show ?thesis .
qed

lemma create_fold_failure:
  assumes "\<forall>event \<in> set events. ev_type event AND JS_EVENT_INIT \<noteq> 0"
    and "fst (js_update_states JsState_zero events) = JsResult_success"
    and "fst (js_update_state (snd (js_update_states JsState_zero events)) bad)
          \<noteq> JsResult_success"
  shows "fst (js_create_async_state sys (map Read events @ Read bad # rest) async_state)
    = JsResult_failure"
proof -
  have "js_create_async_state_loop (JsState_zero, map Read events @ Read bad # rest)
      = Return JsResult_failure
          (snd (js_update_state (snd (js_update_states JsState_zero events)) bad), rest)"
    using loop_init_events [OF assms(1,2)] loop_bad_event [OF assms(3)] by simp
  from create_loop_return [OF this, of sys async_state] show ?thesis by simp
qed

lemma create_source_error:
  assumes "\<forall>event \<in> set events. ev_type event AND JS_EVENT_INIT \<noteq> 0"
    and "fst (js_update_states JsState_zero events) = JsResult_success"
    and "fst (js_get_event broken) = JsResult_failure"
  shows "fst (js_create_async_state sys (map Read events @ broken) async_state)
    = JsResult_failure"
proof -
  have "js_create_async_state_loop (JsState_zero, map Read events @ broken)
      = Return JsResult_failure
          (snd (js_update_states JsState_zero events), snd (snd (js_get_event broken)))"
    using loop_init_events [OF assms(1,2)] loop_read_failure [OF assms(3)] by simp
  from create_loop_return [OF this, of sys async_state] show ?thesis by simp
qed

section \<open>The state folder: claims\<close>

text \<open>
  C1, as stated: for a button event whose index is at least 32 the fold fails and the
  state is unchanged, the time field included. The code assigns the time field before it
  classifies the event, so the second half fails: on the all-zero state, a button event
  with index 32 and timestamp 5 is rejected and leaves a state that differs from the
  one before the call.
\<close>

theorem js_update_state_rejected_button_writes_time:
  "fst (js_update_state JsState_zero
          \<lparr>ev_time = 5, ev_value = 1, ev_type = JS_EVENT_BUTTON, ev_number = 32\<rparr>)
     = JsResult_failure
   \<and> snd (js_update_state JsState_zero
          \<lparr>ev_time = 5, ev_value = 1, ev_type = JS_EVENT_BUTTON, ev_number = 32\<rparr>)
     \<noteq> JsState_zero"
  by (simp add: js_update_state_unfold JS_EVENT_BUTTON_def JsState_zero_def)

text \<open>
  C1, amended: for every state and every button event whose index is at least 32,
  \<open>js_update_state\<close> returns \<open>JsResult_failure\<close> and leaves the buttons bitset and the
  axes array as they were; the only member written is the time field, which holds the
  event's timestamp.
\<close>

theorem js_update_state_button_overflow:
  assumes "ev_type event AND JS_EVENT_BUTTON \<noteq> 0"
    and "unat (ev_number event) \<ge> 32"
  shows "js_update_state state event = (JsResult_failure, state\<lparr>st_time := ev_time event\<rparr>)"
  using assms by (simp add: js_update_state_unfold)

theorem js_update_state_button_overflow_witness:
  "ev_type \<lparr>ev_time = 9, ev_value = 0, ev_type = 0x81, ev_number = 200\<rparr> AND JS_EVENT_BUTTON \<noteq> 0
   \<and> unat (ev_number \<lparr>ev_time = 9, ev_value = 0, ev_type = 0x81, ev_number = 200 :: 8 word\<rparr>)
       \<ge> 32
   \<and> js_update_state \<lparr>st_time = 3, st_buttons = 6, st_axes = [1, 2, 3, 4, 5, 6, 7, 8]\<rparr>
        \<lparr>ev_time = 9, ev_value = 0, ev_type = 0x81, ev_number = 200\<rparr>
      = (JsResult_failure, \<lparr>st_time = 9, st_buttons = 6, st_axes = [1, 2, 3, 4, 5, 6, 7, 8]\<rparr>)"
  using js_update_state_button_overflow
    [of "\<lparr>ev_time = 9, ev_value = 0, ev_type = 0x81, ev_number = 200\<rparr>"
      "\<lparr>st_time = 3, st_buttons = 6, st_axes = [1, 2, 3, 4, 5, 6, 7, 8]\<rparr>"]
  by (simp add: JS_EVENT_BUTTON_def)

text \<open>
  C5. For every state and every button event whose index is below 32, the fold succeeds,
  bit \<open>number\<close> of the buttons bitset is set when the event's value is nonzero and clear
  when it is zero, and the time field is the event's timestamp.
\<close>

theorem js_update_state_button_in_range:
  assumes "ev_type event AND JS_EVENT_BUTTON \<noteq> 0"
    and "unat (ev_number event) < 32"
  shows "fst (js_update_state state event) = JsResult_success
    \<and> (bit (st_buttons (snd (js_update_state state event))) (unat (ev_number event))
         \<longleftrightarrow> ev_value event \<noteq> 0)
    \<and> st_time (snd (js_update_state state event)) = ev_time event"
  using assms
  by (simp add: js_update_state_unfold bit_or_iff bit_and_iff bit_not_iff bit_shift_one
      del: push_bit_of_1)

theorem js_update_state_button_in_range_witness:
  "ev_type \<lparr>ev_time = 9, ev_value = 1, ev_type = 0x01, ev_number = 31\<rparr> AND JS_EVENT_BUTTON \<noteq> 0
   \<and> unat (ev_number \<lparr>ev_time = 9, ev_value = 1, ev_type = 0x01, ev_number = 31 :: 8 word\<rparr>)
       < 32
   \<and> fst (js_update_state JsState_zero
        \<lparr>ev_time = 9, ev_value = 1, ev_type = 0x01, ev_number = 31\<rparr>) = JsResult_success
   \<and> bit (st_buttons (snd (js_update_state JsState_zero
        \<lparr>ev_time = 9, ev_value = 1, ev_type = 0x01, ev_number = 31\<rparr>))) 31
   \<and> st_time (snd (js_update_state JsState_zero
        \<lparr>ev_time = 9, ev_value = 1, ev_type = 0x01, ev_number = 31\<rparr>)) = 9"
  using js_update_state_button_in_range
    [of "\<lparr>ev_time = 9, ev_value = 1, ev_type = 0x01, ev_number = 31\<rparr>" JsState_zero]
  by (simp add: JS_EVENT_BUTTON_def)

text \<open>
  C7. For every state and every axis index \<open>i < 8\<close>, folding an axis event for index \<open>i\<close>
  with value \<open>v1\<close> and then an axis event for index \<open>i\<close> with value \<open>v2\<close> succeeds both
  times and leaves slot \<open>i\<close> equal to \<open>v2\<close>: the second value overwrites the first.
\<close>

theorem js_update_state_axis_overwrite:
  assumes "JsState_wf state"
    and "ev_type e1 AND JS_EVENT_BUTTON = 0" and "ev_type e1 AND JS_EVENT_AXIS \<noteq> 0"
    and "ev_type e2 AND JS_EVENT_BUTTON = 0" and "ev_type e2 AND JS_EVENT_AXIS \<noteq> 0"
    and "ev_number e1 = i" and "ev_number e2 = i" and "unat i < 8"
    and "ev_value e1 = v1" and "ev_value e2 = v2"
  shows "fst (js_update_state state e1) = JsResult_success
    \<and> fst (js_update_state (snd (js_update_state state e1)) e2) = JsResult_success
    \<and> st_axes (snd (js_update_state (snd (js_update_state state e1)) e2)) ! unat i = v2"
  using assms by (simp add: js_update_state_unfold JsState_wf_def)

theorem js_update_state_axis_overwrite_witness:
  "JsState_wf JsState_zero
   \<and> ev_type \<lparr>ev_time = 1, ev_value = 300, ev_type = 0x02, ev_number = 7\<rparr> AND JS_EVENT_BUTTON = 0
   \<and> ev_type \<lparr>ev_time = 1, ev_value = 300, ev_type = 0x02, ev_number = 7\<rparr> AND JS_EVENT_AXIS \<noteq> 0
   \<and> ev_type \<lparr>ev_time = 2, ev_value = 45, ev_type = 0x02, ev_number = 7\<rparr> AND JS_EVENT_BUTTON = 0
   \<and> ev_type \<lparr>ev_time = 2, ev_value = 45, ev_type = 0x02, ev_number = 7\<rparr> AND JS_EVENT_AXIS \<noteq> 0
   \<and> unat (7 :: 8 word) < 8
   \<and> st_axes (snd (js_update_state
        (snd (js_update_state JsState_zero
           \<lparr>ev_time = 1, ev_value = 300, ev_type = 0x02, ev_number = 7\<rparr>))
        \<lparr>ev_time = 2, ev_value = 45, ev_type = 0x02, ev_number = 7\<rparr>)) ! 7 = 45"
  using js_update_state_axis_overwrite
    [of JsState_zero "\<lparr>ev_time = 1, ev_value = 300, ev_type = 0x02, ev_number = 7\<rparr>"
      "\<lparr>ev_time = 2, ev_value = 45, ev_type = 0x02, ev_number = 7\<rparr>" 7 300 45]
  by (simp add: JS_EVENT_BUTTON_def JS_EVENT_AXIS_def JsState_wf_def JsState_zero_def
      js_max_number_of_axes_def)

text \<open>
  C8. \<open>js_update_state\<close> is idempotent on in-range button events: for every state and
  every button event with index below 32, folding the event a second time returns the
  same result code and the same state as folding it once.
\<close>

theorem js_update_state_button_idempotent:
  assumes "ev_type event AND JS_EVENT_BUTTON \<noteq> 0"
    and "unat (ev_number event) < 32"
  shows "js_update_state (snd (js_update_state state event)) event
    = js_update_state state event"
  using assms by (simp add: js_update_state_unfold del: push_bit_of_1)

theorem js_update_state_button_idempotent_witness:
  "ev_type \<lparr>ev_time = 9, ev_value = 1, ev_type = 0x01, ev_number = 4\<rparr> AND JS_EVENT_BUTTON \<noteq> 0
   \<and> unat (ev_number \<lparr>ev_time = 9, ev_value = 1, ev_type = 0x01, ev_number = 4 :: 8 word\<rparr>) < 32
   \<and> js_update_state
        (snd (js_update_state \<lparr>st_time = 3, st_buttons = 3, st_axes = [0, 0, 0, 0, 0, 0, 0, 0]\<rparr>
           \<lparr>ev_time = 9, ev_value = 1, ev_type = 0x01, ev_number = 4\<rparr>))
        \<lparr>ev_time = 9, ev_value = 1, ev_type = 0x01, ev_number = 4\<rparr>
      = (JsResult_success, \<lparr>st_time = 9, st_buttons = 19, st_axes = [0, 0, 0, 0, 0, 0, 0, 0]\<rparr>)
   \<and> js_update_state \<lparr>st_time = 3, st_buttons = 3, st_axes = [0, 0, 0, 0, 0, 0, 0, 0]\<rparr>
        \<lparr>ev_time = 9, ev_value = 1, ev_type = 0x01, ev_number = 4\<rparr>
      = (JsResult_success, \<lparr>st_time = 9, st_buttons = 19, st_axes = [0, 0, 0, 0, 0, 0, 0, 0]\<rparr>)"
  using js_update_state_button_idempotent
    [of "\<lparr>ev_time = 9, ev_value = 1, ev_type = 0x01, ev_number = 4\<rparr>"
      "\<lparr>st_time = 3, st_buttons = 3, st_axes = [0, 0, 0, 0, 0, 0, 0, 0]\<rparr>"]
  by (simp add: js_update_state_unfold JS_EVENT_BUTTON_def)

text \<open>
  C9. A successful fold writes only the addressed slot and the time field: for a button
  event \<open>b\<close> with index below 32, every button bit other than bit \<open>number\<close> and the whole
  axes array are unchanged; for an axis event \<open>a\<close> with index below 8, the buttons bitset
  and every axis slot other than slot \<open>number\<close> are unchanged (and the array keeps its
  length).
\<close>

theorem js_update_state_frame:
  "(ev_type b AND JS_EVENT_BUTTON \<noteq> 0 \<and> unat (ev_number b) < 32 \<longrightarrow>
      fst (js_update_state state b) = JsResult_success
      \<and> (\<forall>m. m \<noteq> unat (ev_number b) \<longrightarrow>
            bit (st_buttons (snd (js_update_state state b))) m = bit (st_buttons state) m)
      \<and> st_axes (snd (js_update_state state b)) = st_axes state)
   \<and> (ev_type a AND JS_EVENT_BUTTON = 0 \<and> ev_type a AND JS_EVENT_AXIS \<noteq> 0
        \<and> unat (ev_number a) < 8 \<longrightarrow>
      fst (js_update_state state' a) = JsResult_success
      \<and> st_buttons (snd (js_update_state state' a)) = st_buttons state'
      \<and> length (st_axes (snd (js_update_state state' a))) = length (st_axes state')
      \<and> (\<forall>j. j \<noteq> unat (ev_number a) \<longrightarrow>
            st_axes (snd (js_update_state state' a)) ! j = st_axes state' ! j))"
  by (auto simp add: js_update_state_unfold bit_or_iff bit_and_iff bit_not_iff bit_shift_one
      simp del: push_bit_of_1 dest: bit_imp_le_length)

theorem js_update_state_frame_witness:
  "ev_type \<lparr>ev_time = 9, ev_value = 0, ev_type = 0x01, ev_number = 1\<rparr> AND JS_EVENT_BUTTON \<noteq> 0
   \<and> unat (ev_number \<lparr>ev_time = 9, ev_value = 0, ev_type = 0x01, ev_number = 1 :: 8 word\<rparr>) < 32
   \<and> ev_type \<lparr>ev_time = 9, ev_value = 70, ev_type = 0x02, ev_number = 1\<rparr> AND JS_EVENT_BUTTON = 0
   \<and> ev_type \<lparr>ev_time = 9, ev_value = 70, ev_type = 0x02, ev_number = 1\<rparr> AND JS_EVENT_AXIS \<noteq> 0
   \<and> unat (ev_number \<lparr>ev_time = 9, ev_value = 70, ev_type = 0x02, ev_number = 1 :: 8 word\<rparr>) < 8
   \<and> js_update_state \<lparr>st_time = 3, st_buttons = 7, st_axes = [1, 2, 3, 4, 5, 6, 7, 8]\<rparr>
        \<lparr>ev_time = 9, ev_value = 0, ev_type = 0x01, ev_number = 1\<rparr>
      = (JsResult_success, \<lparr>st_time = 9, st_buttons = 5, st_axes = [1, 2, 3, 4, 5, 6, 7, 8]\<rparr>)
   \<and> js_update_state \<lparr>st_time = 3, st_buttons = 7, st_axes = [1, 2, 3, 4, 5, 6, 7, 8]\<rparr>
        \<lparr>ev_time = 9, ev_value = 70, ev_type = 0x02, ev_number = 1\<rparr>
      = (JsResult_success, \<lparr>st_time = 9, st_buttons = 7, st_axes = [1, 70, 3, 4, 5, 6, 7, 8]\<rparr>)"
  using js_update_state_frame
    [of "\<lparr>ev_time = 9, ev_value = 0, ev_type = 0x01, ev_number = 1\<rparr>"
      "\<lparr>st_time = 3, st_buttons = 7, st_axes = [1, 2, 3, 4, 5, 6, 7, 8]\<rparr>"
      "\<lparr>ev_time = 9, ev_value = 70, ev_type = 0x02, ev_number = 1\<rparr>"
      "\<lparr>st_time = 3, st_buttons = 7, st_axes = [1, 2, 3, 4, 5, 6, 7, 8]\<rparr>"]
  by (simp add: js_update_state_unfold JS_EVENT_BUTTON_def JS_EVENT_AXIS_def)

text \<open>
  C10. \<open>js_update_state\<close> classifies by bitwise test, the button bit first: an event \<open>b\<close>
  whose type has the button bit is folded exactly like the event with type
  \<open>JS_EVENT_BUTTON\<close> alone, whatever other bits (\<open>JS_EVENT_INIT\<close>, \<open>JS_EVENT_AXIS\<close>) are
  set; an event \<open>a\<close> without the button bit and with the axis bit is folded exactly like
  the event with type \<open>JS_EVENT_AXIS\<close> alone; an event \<open>u\<close> with neither bit is rejected
  with \<open>JsResult_failure\<close>; and adding the initialization flag to any event \<open>e\<close> changes
  nothing in how it is folded.
\<close>

theorem js_update_state_classification:
  "(ev_type b AND JS_EVENT_BUTTON \<noteq> 0 \<longrightarrow>
      js_update_state state b = js_update_state state (b\<lparr>ev_type := JS_EVENT_BUTTON\<rparr>))
   \<and> (ev_type a AND JS_EVENT_BUTTON = 0 \<and> ev_type a AND JS_EVENT_AXIS \<noteq> 0 \<longrightarrow>
      js_update_state state a = js_update_state state (a\<lparr>ev_type := JS_EVENT_AXIS\<rparr>))
   \<and> (ev_type u AND JS_EVENT_BUTTON = 0 \<and> ev_type u AND JS_EVENT_AXIS = 0 \<longrightarrow>
      fst (js_update_state state u) = JsResult_failure)
   \<and> js_update_state state (e\<lparr>ev_type := ev_type e OR JS_EVENT_INIT\<rparr>)
      = js_update_state state e"
proof (intro conjI impI)
  assume "ev_type b AND JS_EVENT_BUTTON \<noteq> 0"
  then show "js_update_state state b = js_update_state state (b\<lparr>ev_type := JS_EVENT_BUTTON\<rparr>)"
    by (simp add: js_update_state_unfold JS_EVENT_BUTTON_def)
next
  assume "ev_type a AND JS_EVENT_BUTTON = 0 \<and> ev_type a AND JS_EVENT_AXIS \<noteq> 0"
  then show "js_update_state state a = js_update_state state (a\<lparr>ev_type := JS_EVENT_AXIS\<rparr>)"
    by (simp add: js_update_state_unfold JS_EVENT_BUTTON_def JS_EVENT_AXIS_def)
next
  assume "ev_type u AND JS_EVENT_BUTTON = 0 \<and> ev_type u AND JS_EVENT_AXIS = 0"
  then show "fst (js_update_state state u) = JsResult_failure"
    by (simp add: js_update_state_unfold)
next
  show "js_update_state state (e\<lparr>ev_type := ev_type e OR JS_EVENT_INIT\<rparr>)
      = js_update_state state e"
    by (simp add: js_update_state_unfold type_or_init del: push_bit_of_1)
qed

theorem js_update_state_classification_witness:
  "ev_type \<lparr>ev_time = 9, ev_value = 1, ev_type = 0x83, ev_number = 1\<rparr> AND JS_EVENT_BUTTON \<noteq> 0
   \<and> ev_type \<lparr>ev_time = 9, ev_value = 70, ev_type = 0x82, ev_number = 1\<rparr> AND JS_EVENT_BUTTON = 0
   \<and> ev_type \<lparr>ev_time = 9, ev_value = 70, ev_type = 0x82, ev_number = 1\<rparr> AND JS_EVENT_AXIS \<noteq> 0
   \<and> ev_type \<lparr>ev_time = 9, ev_value = 1, ev_type = 0x80, ev_number = 1\<rparr> AND JS_EVENT_BUTTON = 0
   \<and> ev_type \<lparr>ev_time = 9, ev_value = 1, ev_type = 0x80, ev_number = 1\<rparr> AND JS_EVENT_AXIS = 0
   \<and> js_update_state JsState_zero \<lparr>ev_time = 9, ev_value = 1, ev_type = 0x83, ev_number = 1\<rparr>
      = (JsResult_success, \<lparr>st_time = 9, st_buttons = 2, st_axes = [0, 0, 0, 0, 0, 0, 0, 0]\<rparr>)
   \<and> js_update_state JsState_zero \<lparr>ev_time = 9, ev_value = 70, ev_type = 0x82, ev_number = 1\<rparr>
      = (JsResult_success, \<lparr>st_time = 9, st_buttons = 0, st_axes = [0, 70, 0, 0, 0, 0, 0, 0]\<rparr>)
   \<and> fst (js_update_state JsState_zero \<lparr>ev_time = 9, ev_value = 1, ev_type = 0x80, ev_number = 1\<rparr>)
      = JsResult_failure
   \<and> js_update_state JsState_zero \<lparr>ev_time = 9, ev_value = 1, ev_type = 0x81, ev_number = 1\<rparr>
      = js_update_state JsState_zero \<lparr>ev_time = 9, ev_value = 1, ev_type = 0x01, ev_number = 1\<rparr>"
  using js_update_state_classification
    [of "\<lparr>ev_time = 9, ev_value = 1, ev_type = 0x83, ev_number = 1\<rparr>" JsState_zero
      "\<lparr>ev_time = 9, ev_value = 70, ev_type = 0x82, ev_number = 1\<rparr>"
      "\<lparr>ev_time = 9, ev_value = 1, ev_type = 0x80, ev_number = 1\<rparr>"
      "\<lparr>ev_time = 9, ev_value = 1, ev_type = 0x01, ev_number = 1\<rparr>"]
  by (simp add: js_update_state_unfold JS_EVENT_BUTTON_def JS_EVENT_AXIS_def JS_EVENT_INIT_def
      JsState_zero_def eval_nat_numeral)

section \<open>The event handler: claims\<close>

text \<open>
  C3. The claim: when task creation fails inside \<open>js_create_event_handler\<close>, the call
  returns \<open>JsResult_failure\<close>, the handler is left not running
  (\<open>js_event_handler_is_running\<close> reads false) and no background task exists. The code
  sets the flag before \<^verbatim>\<open>thrd_create\<close> and does not clear it when the creation fails.
  Evaluated on a handler with no thread, on a platform that cannot start one: the call
  fails and no thread exists, and the flag is read as true.
\<close>

theorem js_create_event_handler_failure_leaves_flag_set:
  "js_create_event_handler threads_nomem
     \<lparr>eh_js = [], eh_event_action_arg = (), eh_event_action = failing_on 5,
      eh_thread_id = Thrd_none, eh_is_running = False\<rparr>
   = (JsResult_failure,
      \<lparr>eh_js = [], eh_event_action_arg = (), eh_event_action = failing_on 5,
       eh_thread_id = Thrd_none, eh_is_running = True\<rparr>)
   \<and> js_event_handler_is_running (snd (js_create_event_handler threads_nomem
        \<lparr>eh_js = [], eh_event_action_arg = (), eh_event_action = failing_on 5,
         eh_thread_id = Thrd_none, eh_is_running = False\<rparr>))"
  by (simp add: js_create_event_handler_def threads_nomem_def threads_ok_def
      js_event_handler_is_running_def)

text \<open>
  C4. Whenever the user callback returns \<open>JsResult_failure\<close> (here: after any number \<open>n\<close>
  of passes of the loop that went back to the loop test), the loop returns with
  \<open>EXIT_FAILURE\<close> and the running flag cleared; the thread has then exited,
  \<open>js_event_handler_is_running\<close> reads false, and \<open>js_destroy_event_handler\<close> called
  afterwards returns \<open>JsResult_failure\<close>, whatever \<^verbatim>\<open>thrd_join\<close> itself reports.
\<close>

theorem js_event_handler_callback_failure:
  assumes "eh_thread_id (fst s) = Thrd_running"
    and "js_event_handler_passes n s = Some (event_handler, w)"
    and "eh_is_running event_handler"
    and "js_get_event (eh_js event_handler) = (JsResult_success, Some event, js')"
    and "eh_event_action event_handler event (eh_event_action_arg event_handler) w
          = (JsResult_failure, w')"
    and "stopped = event_handler\<lparr>eh_js := js', eh_is_running := False\<rparr>"
    and "exited = stopped\<lparr>eh_thread_id := Thrd_exited EXIT_FAILURE\<rparr>"
  shows "js_event_handler_main s = Some (EXIT_FAILURE, stopped, w')
    \<and> js_event_handler_thread s = Some (exited, w')
    \<and> \<not> js_event_handler_is_running exited
    \<and> js_destroy_event_handler sys (exited, w') = Some (JsResult_failure, exited, w')"
proof -
  have main: "js_event_handler_main s = Some (EXIT_FAILURE, stopped, w')"
    using js_event_handler_main_passes [OF assms(2)]
      js_event_handler_main_callback_failure [OF assms(3,4,5)] assms(6)
    by simp
  then have thread: "js_event_handler_thread s = Some (exited, w')"
    using assms(1,7) by (simp add: js_event_handler_thread_def)
  have flag: "\<not> js_event_handler_is_running exited"
    using assms(6,7) by (simp add: js_event_handler_is_running_def)
  have destroy: "js_destroy_event_handler sys (exited, w') = Some (JsResult_failure, exited, w')"
    using assms(6,7)
    by (simp add: js_destroy_event_handler_def js_event_handler_thread_def
        EXIT_FAILURE_def EXIT_SUCCESS_def)
  from main thread flag destroy show ?thesis by simp
qed

text \<open>
  The scenario of the specification: the callback fails on its fifth invocation. Four
  passes go back to the loop test; the fifth event makes the thread exit with
  \<open>EXIT_FAILURE\<close>, one press still queued, and destruction reports the unclean exit.
\<close>

theorem js_event_handler_callback_failure_witness:
  "eh_thread_id failing_handler = Thrd_running
   \<and> js_event_handler_passes 4 (failing_handler, 0)
       = Some (failing_handler\<lparr>eh_js := [press_at 5, press_at 6]\<rparr>, 4)
   \<and> eh_is_running failing_handler
   \<and> failing_on 5 \<lparr>ev_time = 5, ev_value = 1, ev_type = 0x01, ev_number = 0\<rparr> () 4
       = (JsResult_failure, 5)
   \<and> js_event_handler_main (failing_handler, 0)
       = Some (EXIT_FAILURE, failing_handler\<lparr>eh_js := [press_at 6], eh_is_running := False\<rparr>, 5)
   \<and> js_event_handler_thread (failing_handler, 0)
       = Some (failing_handler\<lparr>eh_js := [press_at 6], eh_is_running := False,
                 eh_thread_id := Thrd_exited EXIT_FAILURE\<rparr>, 5)
   \<and> \<not> js_event_handler_is_running
         (failing_handler\<lparr>eh_js := [press_at 6], eh_is_running := False,
            eh_thread_id := Thrd_exited EXIT_FAILURE\<rparr>)
   \<and> js_destroy_event_handler threads_ok
        (failing_handler\<lparr>eh_js := [press_at 6], eh_is_running := False,
           eh_thread_id := Thrd_exited EXIT_FAILURE\<rparr>, 5)
       = Some (JsResult_failure,
           failing_handler\<lparr>eh_js := [press_at 6], eh_is_running := False,
             eh_thread_id := Thrd_exited EXIT_FAILURE\<rparr>, 5)"
proof -
  have passes: "js_event_handler_passes 4 (failing_handler, 0)
      = Some (failing_handler\<lparr>eh_js := [press_at 5, press_at 6]\<rparr>, 4)"
    by (simp add: eval_nat_numeral failing_handler_def js_event_handler_body_def
        js_get_event_def read_fd_def press_at_def failing_on_def)
  have action: "failing_on 5 \<lparr>ev_time = 5, ev_value = 1, ev_type = 0x01, ev_number = 0\<rparr> () 4
      = (JsResult_failure, 5)"
    by (simp add: failing_on_def)
  have "js_get_event (eh_js (failing_handler\<lparr>eh_js := [press_at 5, press_at 6]\<rparr>))
      = (JsResult_success,
         Some \<lparr>ev_time = 5, ev_value = 1, ev_type = 0x01, ev_number = 0\<rparr>, [press_at 6])"
    by (simp add: js_get_event_def read_fd_def press_at_def)
  from js_event_handler_callback_failure
    [of "(failing_handler, 0)" 4 "failing_handler\<lparr>eh_js := [press_at 5, press_at 6]\<rparr>" 4
      "\<lparr>ev_time = 5, ev_value = 1, ev_type = 0x01, ev_number = 0\<rparr>" "[press_at 6]" 5
      "failing_handler\<lparr>eh_js := [press_at 6], eh_is_running := False\<rparr>"
      "failing_handler\<lparr>eh_js := [press_at 6], eh_is_running := False,
         eh_thread_id := Thrd_exited EXIT_FAILURE\<rparr>" threads_ok,
      OF _ passes _ this]
    passes action
  show ?thesis
    by (simp add: failing_handler_def)
qed

section \<open>The asynchronously updated state: claims\<close>

text \<open>
  C2, as stated: creation folds exactly the leading events that carry the
  initialization flag, and the first retrieved event without the flag ends the draining
  without being folded. The loop tests the flag after the body, so that event is folded
  too: with a single physical press of button 2 queued, the state after creation has the
  press folded in, whereas the draining worded by the specification leaves the state
  all-zero.
\<close>

theorem js_create_async_state_folds_unflagged_event:
  "ev_type \<lparr>ev_time = 7, ev_value = 1, ev_type = 0x01, ev_number = 2\<rparr> AND JS_EVENT_INIT = 0
   \<and> js_create_async_state threads_ok
        [Read \<lparr>ev_time = 7, ev_value = 1, ev_type = 0x01, ev_number = 2\<rparr>] JsAsyncState_blank
      = (JsResult_success,
         \<lparr>as_lock = False,
          as_event_handler =
            \<lparr>eh_js = [], eh_event_action_arg = (),
             eh_event_action = js_async_state_event_action threads_ok,
             eh_thread_id = Thrd_running, eh_is_running = True\<rparr>,
          as_state = \<lparr>st_time = 7, st_buttons = 4, st_axes = [0, 0, 0, 0, 0, 0, 0, 0]\<rparr>\<rparr>,
         [])
   \<and> js_drain_spec JsState_zero [\<lparr>ev_time = 7, ev_value = 1, ev_type = 0x01, ev_number = 2\<rparr>]
      = (JsResult_success,
         \<lparr>st_time = 0, st_buttons = 0, st_axes = [0, 0, 0, 0, 0, 0, 0, 0]\<rparr>)"
  by (simp add: js_create_async_state_def js_create_async_state_loop.simps js_get_event_def
      read_fd_def js_update_state_unfold JS_EVENT_BUTTON_def JS_EVENT_INIT_def
      JsState_zero_eq JsAsyncState_blank_def threads_ok_def js_create_event_handler_def
      js_drain_spec_def)

text \<open>
  C2, amended: \<open>js_create_async_state\<close> zero-initializes the state and then drains the
  source synchronously, folding every event it retrieves. After a run of events that
  carry the initialization flag (and fold successfully):
  \<^item> if the next retrieved event does not carry the flag, that event is folded as well
    and the draining stops after it, nothing further being read;
  \<^item> if no event is available, the draining stops at once, with exactly the run folded;
  \<^item> if the next retrieved event cannot be folded, creation returns \<open>JsResult_failure\<close>;
  \<^item> if the source reports an error, creation returns \<open>JsResult_failure\<close>.
\<close>

theorem js_create_async_state_drain:
  assumes "\<forall>event \<in> set events. ev_type event AND JS_EVENT_INIT \<noteq> 0"
    and "fst (js_update_states JsState_zero events) = JsResult_success"
  shows "(ev_type event AND JS_EVENT_INIT = 0
        \<and> fst (js_update_state (snd (js_update_states JsState_zero events)) event)
            = JsResult_success \<longrightarrow>
      as_state (fst (snd (js_create_async_state sys
          (map Read events @ Read event # rest) async_state)))
        = snd (js_update_states JsState_zero (events @ [event]))
      \<and> snd (snd (js_create_async_state sys
          (map Read events @ Read event # rest) async_state)) = rest)
    \<and> (fst (js_get_event idle) = JsResult_nothing \<longrightarrow>
      as_state (fst (snd (js_create_async_state sys (map Read events @ idle) async_state)))
        = snd (js_update_states JsState_zero events)
      \<and> snd (snd (js_create_async_state sys (map Read events @ idle) async_state))
        = snd (snd (js_get_event idle)))
    \<and> (fst (js_update_state (snd (js_update_states JsState_zero events)) bad)
          \<noteq> JsResult_success \<longrightarrow>
      fst (js_create_async_state sys (map Read events @ Read bad # rest') async_state)
        = JsResult_failure)
    \<and> (fst (js_get_event broken) = JsResult_failure \<longrightarrow>
      fst (js_create_async_state sys (map Read events @ broken) async_state)
        = JsResult_failure)"
  using create_drains_to_physical_event [OF assms, of event sys rest async_state]
    create_drains_to_nothing [OF assms, of idle sys async_state]
    create_fold_failure [OF assms, of bad sys rest' async_state]
    create_source_error [OF assms, of broken sys async_state]
  by blast

text \<open>
  The drain scenario of the specification (button 2 set, axis 0 at 500, button 2 cleared,
  all flagged), followed by a physical press of button 3 and one more queued event; by
  nothing; by an event that cannot be folded; and by a short read.
\<close>

theorem js_create_async_state_drain_witness:
  "ev_type (backlog ! 0) AND JS_EVENT_INIT \<noteq> 0
   \<and> ev_type (backlog ! 1) AND JS_EVENT_INIT \<noteq> 0
   \<and> ev_type (backlog ! 2) AND JS_EVENT_INIT \<noteq> 0
   \<and> length backlog = 3
   \<and> js_update_states JsState_zero backlog
       = (JsResult_success,
          \<lparr>st_time = 3, st_buttons = 0, st_axes = [500, 0, 0, 0, 0, 0, 0, 0]\<rparr>)
   \<and> ev_type press3 AND JS_EVENT_INIT = 0
   \<and> fst (js_get_event []) = JsResult_nothing
   \<and> fst (js_get_event [Read_short]) = JsResult_failure
   \<and> as_state (fst (snd (js_create_async_state threads_ok
        (map Read backlog @ [Read press3, Read button40]) JsAsyncState_blank)))
       = \<lparr>st_time = 4, st_buttons = 8, st_axes = [500, 0, 0, 0, 0, 0, 0, 0]\<rparr>
   \<and> snd (snd (js_create_async_state threads_ok
        (map Read backlog @ [Read press3, Read button40]) JsAsyncState_blank))
       = [Read button40]
   \<and> as_state (fst (snd (js_create_async_state threads_ok
        (map Read backlog @ []) JsAsyncState_blank)))
       = \<lparr>st_time = 3, st_buttons = 0, st_axes = [500, 0, 0, 0, 0, 0, 0, 0]\<rparr>
   \<and> fst (js_create_async_state threads_ok
        (map Read backlog @ [Read button40, Read press3]) JsAsyncState_blank)
       = JsResult_failure
   \<and> fst (js_create_async_state threads_ok
        (map Read backlog @ [Read_short]) JsAsyncState_blank)
       = JsResult_failure"
proof -
  have flags: "\<forall>event \<in> set backlog. ev_type event AND JS_EVENT_INIT \<noteq> 0"
    by (simp add: backlog_def JS_EVENT_INIT_def)
  have folded: "js_update_states JsState_zero backlog
      = (JsResult_success,
         \<lparr>st_time = 3, st_buttons = 0, st_axes = [500, 0, 0, 0, 0, 0, 0, 0]\<rparr>)"
    by (simp add: backlog_def js_update_state_unfold JS_EVENT_BUTTON_def JS_EVENT_AXIS_def
        JsState_zero_eq)
  then have ok: "fst (js_update_states JsState_zero backlog) = JsResult_success"
    by simp
  from js_create_async_state_drain
    [OF flags ok, of press3 threads_ok "[Read button40]" JsAsyncState_blank "[]" button40
      "[Read press3]" "[Read_short]"]
    folded
  show ?thesis
    by (simp add: js_update_states_snoc [OF ok] js_update_state_unfold press3_def button40_def
        JS_EVENT_BUTTON_def JS_EVENT_AXIS_def JS_EVENT_INIT_def js_get_event_def read_fd_def
        EAGAIN_def backlog_def JsState_zero_eq)
qed

text \<open>
  C6. \<open>js_query_async_state\<close> takes the lock, copies the whole state record into the
  caller's variable and releases the lock. It returns \<open>JsResult_failure\<close> exactly when
  taking or releasing the lock fails; otherwise it returns \<open>JsResult_success\<close>, the
  caller's variable holds the current state record, and the mutex has gone through
  \<^verbatim>\<open>mtx_lock\<close> and then \<^verbatim>\<open>mtx_unlock\<close>. The state member is never modified.
\<close>

theorem js_query_async_state_copies_state:
  "(fst (js_query_async_state sys async_state state) = JsResult_failure \<longleftrightarrow>
      fst (mtx_lock sys (as_lock async_state)) \<noteq> thrd_success
      \<or> fst (mtx_unlock sys (snd (mtx_lock sys (as_lock async_state)))) \<noteq> thrd_success)
   \<and> (fst (js_query_async_state sys async_state state) \<noteq> JsResult_failure \<longrightarrow>
      js_query_async_state sys async_state state
        = (JsResult_success,
           async_state\<lparr>as_lock :=
             snd (mtx_unlock sys (snd (mtx_lock sys (as_lock async_state))))\<rparr>,
           as_state async_state))
   \<and> as_state (fst (snd (js_query_async_state sys async_state state)))
      = as_state async_state"
proof (cases "mtx_lock sys (as_lock async_state)")
  case (Pair lock_result held)
  show ?thesis
  proof (cases "lock_result = thrd_success")
    case False
    with Pair show ?thesis
      by (simp add: js_query_async_state_def Let_def)
  next
    case True
    with Pair show ?thesis
      by (cases "mtx_unlock sys held") (simp add: js_query_async_state_def Let_def)
  qed
qed

theorem js_query_async_state_copies_state_witness:
  "fst (mtx_lock threads_ok (as_lock JsAsyncState_blank)) = thrd_success
   \<and> fst (mtx_unlock threads_ok (snd (mtx_lock threads_ok (as_lock JsAsyncState_blank))))
       = thrd_success
   \<and> js_query_async_state threads_ok JsAsyncState_blank JsState_zero
       = (JsResult_success, JsAsyncState_blank,
          \<lparr>st_time = 77, st_buttons = 5, st_axes = [1, 1, 1, 1, 1, 1, 1, 1]\<rparr>)"
  using js_query_async_state_copies_state [of threads_ok JsAsyncState_blank JsState_zero]
  by (simp add: threads_ok_def JsAsyncState_blank_def)

end
